theory Spec2Isabelle
  imports Complex_Main "HOL-Library.AList"
begin

section \<open>Values, dictionaries and exceptions\<close>

text \<open>
  The scalar values that an \<^verbatim>\<open>id\<close> field of a remote record or a cell of the
  spreadsheet carries: Python's \<^verbatim>\<open>None\<close>, an \<^verbatim>\<open>int\<close> or a \<^verbatim>\<open>str\<close>. On these
  Python's \<^verbatim>\<open>==\<close> (and so membership in a \<^verbatim>\<open>set\<close>) is equality of the datatype.
\<close>

datatype pyval = PNone | PInt int | PStr string

text \<open>Truthiness, as \<^verbatim>\<open>if v\<close> tests it.\<close>

fun truthy :: "pyval \<Rightarrow> bool" where
  "truthy PNone = False"
| "truthy (PInt n) = (n \<noteq> 0)"
| "truthy (PStr s) = (s \<noteq> [])"

text \<open>
  A \<^verbatim>\<open>dict\<close> with string keys is an association list in insertion order; a lookup
  reads the first entry of a key. A remote record (\<open>item\<close>) and a spreadsheet
  row (\<open>row\<close>) are both such dictionaries.
\<close>

type_synonym item = "(string \<times> pyval) list"
type_synonym row = "(string \<times> pyval) list"

text \<open>\<^verbatim>\<open>d.get(k)\<close> and \<^verbatim>\<open>d.get(k, default)\<close>.\<close>

definition dict_get :: "(string \<times> pyval) list \<Rightarrow> string \<Rightarrow> pyval" where
  "dict_get d k = (case map_of d k of None \<Rightarrow> PNone | Some v \<Rightarrow> v)"

definition dict_get_default :: "(string \<times> 'v) list \<Rightarrow> string \<Rightarrow> 'v \<Rightarrow> 'v" where
  "dict_get_default d k dflt = (case map_of d k of None \<Rightarrow> dflt | Some v \<Rightarrow> v)"

text \<open>\<^verbatim>\<open>r.get("id")\<close>, the identifier of a remote record.\<close>

definition item_id :: "item \<Rightarrow> pyval" where
  "item_id r = dict_get r ''id''"

text \<open>The exceptions of the source that are not handled where they arise.\<close>

datatype exn = KeyError | ValueError | IndexError | StopIteration | InvalidFile

text \<open>\<^verbatim>\<open>d[k] = v\<close> is \<open>AList.update k v d\<close>; \<^verbatim>\<open>d.update(e)\<close> stores the entries of \<open>e\<close> in turn.\<close>

definition dict_update :: "(string \<times> 'v) list \<Rightarrow> (string \<times> 'v) list \<Rightarrow> (string \<times> 'v) list" where
  "dict_update d e = fold (\<lambda>(k, v). AList.update k v) e d"

section \<open>Deduplication and merge (cineby_scraper.py)\<close>

text \<open>
  \<^verbatim>\<open>dedupe(items, key="id")\<close>: the loop over \<^verbatim>\<open>items\<close> with its two accumulators,
  the set \<^verbatim>\<open>seen\<close> and the list \<^verbatim>\<open>out\<close>.
\<close>

fun dedupe_loop :: "string \<Rightarrow> item list \<Rightarrow> pyval set \<Rightarrow> item list \<Rightarrow> item list" where
  "dedupe_loop key [] seen out = out"
| "dedupe_loop key (item # items) seen out =
     (let v = dict_get item key in
      if truthy v \<and> v \<notin> seen
      then dedupe_loop key items (insert v seen) (out @ [item])
      else dedupe_loop key items seen out)"

definition dedupe :: "item list \<Rightarrow> string \<Rightarrow> item list" where
  "dedupe items key = dedupe_loop key items {} []"

text \<open>
  \<^verbatim>\<open>normalize_movie\<close> builds a row whose first column \<^verbatim>\<open>"TMDB ID"\<close> is
  \<^verbatim>\<open>item.get("id", "")\<close>. Its other columns (rounded floats, formatted links,
  genre names) are the parameter \<open>cols\<close>; none of them is named \<^verbatim>\<open>"TMDB ID"\<close>
  in the source. \<^verbatim>\<open>normalize_tv\<close> is the same function with other columns.
\<close>

definition normalize_movie :: "(item \<Rightarrow> row) \<Rightarrow> item \<Rightarrow> row" where
  "normalize_movie cols item = (''TMDB ID'', dict_get_default item ''id'' (PStr [])) # cols item"

text \<open>
  \<^verbatim>\<open>[r for r in new_data if r["TMDB ID"] not in ex_ids]\<close>; the subscript raises
  \<^verbatim>\<open>KeyError\<close> on a row without the column.
\<close>

fun keep_unknown :: "pyval set \<Rightarrow> row list \<Rightarrow> exn + row list" where
  "keep_unknown ex_ids [] = Inr []"
| "keep_unknown ex_ids (r # rs) =
     (case map_of r ''TMDB ID'' of
        None \<Rightarrow> Inl KeyError
      | Some v \<Rightarrow>
          (case keep_unknown ex_ids rs of
             Inl e \<Rightarrow> Inl e
           | Inr kept \<Rightarrow> Inr (if v \<notin> ex_ids then r # kept else kept)))"

text \<open>
  The merge step of \<^verbatim>\<open>main\<close>, written there once per category:
  \<^verbatim>\<open>new = dedupe(lists); new_data = [normalize_movie(m) for m in new];
  data = existing + [r for r in new_data if r["TMDB ID"] not in ex_ids]\<close>.
\<close>

definition main_merge :: "(item \<Rightarrow> row) \<Rightarrow> row list \<Rightarrow> pyval set \<Rightarrow> item list \<Rightarrow> exn + row list" where
  "main_merge cols existing ex_ids fetched =
     (let new = dedupe fetched ''id'';
          new_data = map (normalize_movie cols) new
      in case keep_unknown ex_ids new_data of
           Inl e \<Rightarrow> Inl e
         | Inr kept \<Rightarrow> Inr (existing @ kept))"



text \<open>A row of the id column alone, for the examples.\<close>

definition no_cols :: "item \<Rightarrow> row" where
  "no_cols item = []"

section \<open>The fetch client (cineby_scraper.py, TMDBClient)\<close>

text \<open>
  A response body as \<^verbatim>\<open>resp.json()\<close> reads it: not JSON at all (the call raises
  \<^verbatim>\<open>requests.exceptions.JSONDecodeError\<close>, a \<^verbatim>\<open>RequestException\<close>), the JSON
  \<^verbatim>\<open>null\<close>, or an object. Of an object the walker reads the keys \<^verbatim>\<open>results\<close>
  (an array of records, \<open>results_key\<close>) and \<^verbatim>\<open>total_pages\<close> (an integer,
  \<open>total_pages_key\<close>); \<open>other_keys\<close> are the remaining entries.
\<close>

record page_json =
  results_key :: "item list option"
  total_pages_key :: "int option"
  other_keys :: "(string \<times> pyval) list"

datatype body = NotJson | JsonNull | JsonObject page_json

text \<open>
  The \<^verbatim>\<open>Retry-After\<close> header through \<^verbatim>\<open>int(resp.headers.get("Retry-After", 5))\<close>:
  absent, a value that \<^verbatim>\<open>int\<close> reads as a number, or one it rejects with
  \<^verbatim>\<open>ValueError\<close> (an HTTP date).
\<close>

datatype header = Absent | Numeric int | NonNumeric

record response =
  status_code :: int
  retry_after :: header
  body :: body

text \<open>\<^verbatim>\<open>session.get\<close> returns a response or raises a \<^verbatim>\<open>RequestException\<close>.\<close>

datatype outcome = ConnectionError | Response response

record request =
  url :: string
  params :: "(string \<times> pyval) list"

text \<open>
  What the process does to the outside, in order: the requests it sends and the
  seconds it sleeps. The remote source answers a request knowing all that happened before.
\<close>

datatype event = Requested request | Slept rat

type_synonym trace = "event list"
type_synonym remote = "trace \<Rightarrow> request \<Rightarrow> outcome"

record client =
  auth_params :: "(string \<times> pyval) list"

definition BASE_URL :: string where
  "BASE_URL = ''https://api.themoviedb.org/3''"

definition REQUEST_DELAY :: rat where
  "REQUEST_DELAY = 1 / 4"

text \<open>The first lines of \<^verbatim>\<open>get\<close>: the client's parameters updated with the call's.\<close>

definition build_request :: "client \<Rightarrow> string \<Rightarrow> (string \<times> pyval) list \<Rightarrow> request" where
  "build_request c endpoint extra_params =
     \<lparr>url = BASE_URL @ endpoint, params = dict_update (auth_params c) extra_params\<rparr>"

text \<open>\<^verbatim>\<open>int(resp.headers.get("Retry-After", 5))\<close>.\<close>

fun int_retry_after :: "header \<Rightarrow> exn + int" where
  "int_retry_after Absent = Inr 5"
| "int_retry_after (Numeric n) = Inr n"
| "int_retry_after NonNumeric = Inl ValueError"

text \<open>
  The loop \<^verbatim>\<open>for attempt in range(3)\<close> of \<^verbatim>\<open>get\<close>, over the attempts still to
  come. \<open>Inr None\<close> is the failure sentinel \<^verbatim>\<open>None\<close>; \<open>Inl\<close> is an exception
  that leaves \<^verbatim>\<open>get\<close>: the \<^verbatim>\<open>ValueError\<close> of \<^verbatim>\<open>int\<close> on a header that is no
  number and of \<^verbatim>\<open>time.sleep\<close> on a negative one, neither a \<^verbatim>\<open>RequestException\<close>.
  \<^verbatim>\<open>raise_for_status\<close> raises on the codes 400 to 599.
\<close>

fun get_attempts :: "remote \<Rightarrow> request \<Rightarrow> nat list \<Rightarrow> trace \<Rightarrow> (exn + page_json option) \<times> trace" where
  "get_attempts remote req [] tr = (Inr None, tr)"
| "get_attempts remote req (attempt # rest) tr =
     (let tr1 = tr @ [Requested req];
          on_request_exception =
            (if attempt = 2 then (Inr None, tr1)
             else get_attempts remote req rest (tr1 @ [Slept (2 ^ attempt)]))
      in case remote tr req of
           ConnectionError \<Rightarrow> on_request_exception
         | Response resp \<Rightarrow>
             if status_code resp = 429 then
               (case int_retry_after (retry_after resp) of
                  Inl e \<Rightarrow> (Inl e, tr1)
                | Inr wait \<Rightarrow>
                    if wait < 0 then (Inl ValueError, tr1)
                    else get_attempts remote req rest (tr1 @ [Slept (of_int wait)]))
             else if 400 \<le> status_code resp \<and> status_code resp < 600 then on_request_exception
             else
               (case body resp of
                  NotJson \<Rightarrow> on_request_exception
                | JsonNull \<Rightarrow> (Inr None, tr1)
                | JsonObject data \<Rightarrow> (Inr (Some data), tr1)))"

definition get :: "remote \<Rightarrow> client \<Rightarrow> string \<Rightarrow> (string \<times> pyval) list \<Rightarrow> trace \<Rightarrow> (exn + page_json option) \<times> trace" where
  "get remote c endpoint extra_params tr =
     get_attempts remote (build_request c endpoint extra_params) [0, 1, 2] tr"

text \<open>
  The answers to one attempt that end in the handler of \<^verbatim>\<open>RequestException\<close>: a
  network error, a status other than 429 that \<^verbatim>\<open>raise_for_status\<close> rejects, or a body
  that is no JSON. This is the specification's "non-429 failure", used to state it.
\<close>

fun raises_request_exception :: "outcome \<Rightarrow> bool" where
  "raises_request_exception ConnectionError = True"
| "raises_request_exception (Response resp) =
     (status_code resp \<noteq> 429
      \<and> (400 \<le> status_code resp \<and> status_code resp < 600 \<or> body resp = NotJson))"

section \<open>The incremental page walker (cineby_scraper.py, fetch_incremental)\<close>

text \<open>\<^verbatim>\<open>not data\<close> holds of \<^verbatim>\<open>None\<close> and of an object without entries.\<close>

definition empty_object :: "page_json \<Rightarrow> bool" where
  "empty_object d = (results_key d = None \<and> total_pages_key d = None \<and> other_keys d = [])"

text \<open>\<^verbatim>\<open>max_pages and page > max_pages\<close>, with \<^verbatim>\<open>max_pages\<close> a number or \<^verbatim>\<open>None\<close>.\<close>

fun over_budget :: "int option \<Rightarrow> int \<Rightarrow> bool" where
  "over_budget None page = False"
| "over_budget (Some m) page = (m \<noteq> 0 \<and> page > m)"

text \<open>
  The \<^verbatim>\<open>while page <= total_pages\<close> loop of \<^verbatim>\<open>fetch_incremental\<close>, with its
  variables \<^verbatim>\<open>page\<close>, \<^verbatim>\<open>total_pages\<close> and \<^verbatim>\<open>results\<close>; the progress bar is left out.
\<close>

function fetch_incremental_loop ::
  "remote \<Rightarrow> client \<Rightarrow> string \<Rightarrow> (string \<times> pyval) list \<Rightarrow> pyval set \<Rightarrow> int option
     \<Rightarrow> int \<Rightarrow> int \<Rightarrow> item list \<Rightarrow> trace \<Rightarrow> (exn + item list) \<times> trace" where
  "fetch_incremental_loop remote c endpoint ps existing_ids max_pages page total_pages results tr =
     (if page \<le> total_pages then
        (if over_budget max_pages page then (Inr results, tr)
         else
           (case get remote c endpoint (AList.update ''page'' (PInt page) ps) tr of
              (Inl e, tr1) \<Rightarrow> (Inl e, tr1)
            | (Inr None, tr1) \<Rightarrow> (Inr results, tr1)
            | (Inr (Some data), tr1) \<Rightarrow>
                if empty_object data then (Inr results, tr1)
                else
                  (let page_results = (case results_key data of None \<Rightarrow> [] | Some rs \<Rightarrow> rs);
                       total_pages' = min (case total_pages_key data of None \<Rightarrow> 1 | Some t \<Rightarrow> t) 500;
                       new_on_page = filter (\<lambda>r. item_id r \<notin> existing_ids) page_results;
                       results' = results @ new_on_page
                   in if length new_on_page = 0 \<and> page > 1 then (Inr results', tr1)
                      else fetch_incremental_loop remote c endpoint ps existing_ids max_pages
                             (page + 1) total_pages' results' (tr1 @ [Slept REQUEST_DELAY]))))
      else (Inr results, tr))"
  by pat_completeness auto
termination
  by (relation "measure (\<lambda>(remote, c, endpoint, ps, existing_ids, max_pages, page, total_pages, results, tr).
                   nat (max total_pages 500 + 1 - page))") auto

definition fetch_incremental ::
  "remote \<Rightarrow> client \<Rightarrow> string \<Rightarrow> (string \<times> pyval) list \<Rightarrow> pyval set \<Rightarrow> int option
     \<Rightarrow> trace \<Rightarrow> (exn + item list) \<times> trace" where
  "fetch_incremental remote c endpoint ps existing_ids max_pages tr =
     fetch_incremental_loop remote c endpoint ps existing_ids max_pages 1 1 [] tr"

section \<open>One category of a run (cineby_scraper.py, main)\<close>



section \<open>The snapshot reader (cineby_scraper.py, load_existing_rows)\<close>

text \<open>
  A worksheet as openpyxl shows it: \<^verbatim>\<open>ws.max_row\<close> and the rows of
  \<^verbatim>\<open>ws.iter_rows(values_only=True)\<close>. A file at the snapshot's path is a workbook, its
  sheets by title, or something \<^verbatim>\<open>load_workbook\<close> rejects.
\<close>

record sheet =
  max_row :: "int option"
  sheet_rows :: "pyval list list"

datatype xlsx = Corrupt | Workbook "(string \<times> sheet) list"

text \<open>\<^verbatim>\<open>str\<close> on a cell value.\<close>

fun str_nat :: "nat \<Rightarrow> string" where
  "str_nat n =
     (if n < 10 then [char_of (48 + n)] else str_nat (n div 10) @ [char_of (48 + n mod 10)])"

fun py_str :: "pyval \<Rightarrow> string" where
  "py_str PNone = ''None''"
| "py_str (PInt i) = (if i < 0 then CHR ''-'' # str_nat (nat (- i)) else str_nat (nat i))"
| "py_str (PStr s) = s"

text \<open>\<^verbatim>\<open>headers.index(id_col) if id_col in headers else None\<close>.\<close>

fun list_index :: "'a list \<Rightarrow> 'a \<Rightarrow> nat option" where
  "list_index [] x = None"
| "list_index (y # ys) x = (if y = x then Some 0 else map_option Suc (list_index ys x))"

text \<open>The row dictionary: \<^verbatim>\<open>dict(zip(headers, row))\<close> with \<^verbatim>\<open>None\<close> replaced by \<^verbatim>\<open>""\<close>.\<close>

definition row_dict :: "string list \<Rightarrow> pyval list \<Rightarrow> row" where
  "row_dict headers r =
     map (\<lambda>(k, v). (k, if v \<noteq> PNone then v else PStr []))
       (dict_update [] (zip headers r))"

text \<open>The loop over the data rows; \<^verbatim>\<open>row[id_idx]\<close> raises on a row that is too short.\<close>

fun rows_loop :: "string list \<Rightarrow> nat option \<Rightarrow> pyval list list \<Rightarrow> row list \<Rightarrow> pyval set
    \<Rightarrow> exn + row list \<times> pyval set" where
  "rows_loop headers id_idx [] data ids = Inr (data, ids)"
| "rows_loop headers id_idx (r # rest) data ids =
     (let data' = data @ [row_dict headers r] in
      case id_idx of
        None \<Rightarrow> rows_loop headers id_idx rest data' ids
      | Some i \<Rightarrow>
          if i < length r then
            (if r ! i \<noteq> PNone then rows_loop headers id_idx rest data' (insert (r ! i) ids)
             else rows_loop headers id_idx rest data' ids)
          else Inl IndexError)"

text \<open>The body of the \<^verbatim>\<open>try\<close>; \<^verbatim>\<open>next(rows_iter)\<close> raises on a sheet without rows.\<close>

definition read_sheet :: "xlsx \<Rightarrow> string \<Rightarrow> string \<Rightarrow> exn + row list \<times> pyval set" where
  "read_sheet file sheet_name id_col =
     (case file of
        Corrupt \<Rightarrow> Inl InvalidFile
      | Workbook wb \<Rightarrow>
          (case map_of wb sheet_name of
             None \<Rightarrow> Inr ([], {})
           | Some ws \<Rightarrow>
               (case sheet_rows ws of
                  [] \<Rightarrow> Inl StopIteration
                | first # rest \<Rightarrow>
                    (let headers = map (\<lambda>h. if h \<noteq> PNone then py_str h else []) first;
                         id_idx = list_index headers id_col
                     in rows_loop headers id_idx rest [] {}))))"

text \<open>
  \<^verbatim>\<open>load_existing_rows(output_path, sheet_name, id_col)\<close> on a file system that maps
  a path to the file there: the test \<^verbatim>\<open>os.path.exists\<close>, then the \<^verbatim>\<open>try\<close> whose
  handler catches every \<^verbatim>\<open>Exception\<close>.
\<close>

definition load_existing_rows :: "(string \<rightharpoonup> xlsx) \<Rightarrow> string \<Rightarrow> string \<Rightarrow> string \<Rightarrow> row list \<times> pyval set" where
  "load_existing_rows fs output_path sheet_name id_col =
     (case fs output_path of
        None \<Rightarrow> ([], {})
      | Some file \<Rightarrow>
          (case read_sheet file sheet_name id_col of
             Inl e \<Rightarrow> ([], {})
           | Inr loaded \<Rightarrow> loaded))"

section \<open>Change detection and the pipeline cycle (run_all.py)\<close>

type_synonym counts = "(string \<times> int) list"

text \<open>The file \<^verbatim>\<open>row_counts.json\<close>, when it exists: text that is no JSON, or a saved map.\<close>

datatype json_file = Unparsable | Saved counts

record disk =
  source_excel :: "xlsx option"
  row_count_file :: "json_file option"

definition load_row_counts :: "disk \<Rightarrow> counts" where
  "load_row_counts d =
     (case row_count_file d of
        None \<Rightarrow> []
      | Some Unparsable \<Rightarrow> []
      | Some (Saved c) \<Rightarrow> c)"

definition save_row_counts :: "counts \<Rightarrow> disk \<Rightarrow> disk" where
  "save_row_counts c d = d\<lparr>row_count_file := Some (Saved c)\<rparr>"

text \<open>
  \<^verbatim>\<open>_count_excel_rows\<close>: \<^verbatim>\<open>max(0, (ws.max_row or 1) - 1)\<close> for every sheet, and the
  empty map when the workbook cannot be read.
\<close>

definition data_rows :: "sheet \<Rightarrow> int" where
  "data_rows ws =
     max 0 ((case max_row ws of None \<Rightarrow> 1 | Some m \<Rightarrow> if m \<noteq> 0 then m else 1) - 1)"

definition count_excel_rows :: "xlsx option \<Rightarrow> counts" where
  "count_excel_rows file =
     (case file of
        None \<Rightarrow> []
      | Some Corrupt \<Rightarrow> []
      | Some (Workbook wb) \<Rightarrow> fold (\<lambda>(name, ws). AList.update name (data_rows ws)) wb [])"

text \<open>The loop of \<^verbatim>\<open>detect_new_rows\<close> over \<^verbatim>\<open>new_counts.items()\<close>.\<close>

fun growth_loop :: "counts \<Rightarrow> counts \<Rightarrow> bool \<Rightarrow> bool" where
  "growth_loop old_counts [] has_new = has_new"
| "growth_loop old_counts ((sheet, count) # rest) has_new =
     (let prev = dict_get_default old_counts sheet 0 in
      if count > prev then growth_loop old_counts rest True
      else growth_loop old_counts rest has_new)"

text \<open>The comparison of \<^verbatim>\<open>detect_new_rows\<close>, once both maps are read.\<close>

definition compare_counts :: "counts \<Rightarrow> counts \<Rightarrow> bool \<times> counts \<times> counts" where
  "compare_counts old_counts new_counts =
     (if old_counts = [] then (True, old_counts, new_counts)
      else (growth_loop old_counts new_counts False, old_counts, new_counts))"

definition detect_new_rows :: "disk \<Rightarrow> bool \<times> counts \<times> counts" where
  "detect_new_rows d = compare_counts (load_row_counts d) (count_excel_rows (source_excel d))"

record args =
  no_scrape :: bool
  web_only :: bool
  skip_lv_only :: bool
  skip_lv :: bool
  force_lv :: bool

text \<open>
  \<^verbatim>\<open>run_pipeline_cycle\<close>. The two scripts run as subprocesses: each is a parameter
  that changes the disk and tells \<^verbatim>\<open>run_script\<close> whether it succeeded.
\<close>

definition run_pipeline_cycle :: "args \<Rightarrow> (disk \<Rightarrow> bool \<times> disk) \<Rightarrow> (disk \<Rightarrow> bool \<times> disk) \<Rightarrow> disk \<Rightarrow> disk" where
  "run_pipeline_cycle a scraper linkvertise d =
     (let (scrape_ok, d1) =
            (if \<not> no_scrape a \<and> \<not> web_only a \<and> \<not> skip_lv_only a then scraper d else (True, d))
      in if \<not> scrape_ok then d1
         else if skip_lv a \<or> web_only a then d1
         else if source_excel d1 = None then d1
         else
           (let (has_new, old_counts, new_counts) = detect_new_rows d1 in
            if has_new \<or> force_lv a then
              (let (lv_ok, d2) = linkvertise d1 in save_row_counts new_counts d2)
            else save_row_counts new_counts d1))"

section \<open>Concrete inputs for the examples\<close>

text \<open>A script that fails and one that succeeds, neither touching the disk.\<close>

definition script_fails :: "disk \<Rightarrow> bool \<times> disk" where
  "script_fails d = (False, d)"

definition script_succeeds :: "disk \<Rightarrow> bool \<times> disk" where
  "script_succeeds d = (True, d)"

text \<open>A workbook of one sheet with a header and two data rows, and a baseline of one row.\<close>

definition example_disk :: disk where
  "example_disk =
     \<lparr>source_excel = Some (Workbook [(''Movies'', \<lparr>max_row = Some 3, sheet_rows = []\<rparr>)]),
      row_count_file = Some (Saved [(''Movies'', 1)])\<rparr>"

text \<open>The command line without flags: every step of the cycle is enabled.\<close>

definition all_steps :: args where
  "all_steps =
     \<lparr>no_scrape = False, web_only = False, skip_lv_only = False, skip_lv = False, force_lv = False\<rparr>"

text \<open>A client without credentials in its parameters, and the remote sources of the examples.\<close>

definition bearer_client :: client where
  "bearer_client = \<lparr>auth_params = []\<rparr>"


definition always_500 :: remote where
  "always_500 tr req = Response \<lparr>status_code = 500, retry_after = Absent, body = NotJson\<rparr>"

definition unreachable :: remote where
  "unreachable tr req = ConnectionError"

definition not_modified :: remote where
  "not_modified tr req =
     Response \<lparr>status_code = 304, retry_after = Absent,
       body = JsonObject \<lparr>results_key = Some [], total_pages_key = Some 1, other_keys = []\<rparr>\<rparr>"


text \<open>
  A successful answer for one page, and a remote source of five pages of one record
  each: ids 101 and 102 on pages 1 and 2, ids 1, 2 and 3 on the pages after.
\<close>

definition page_response :: "int \<Rightarrow> item list \<Rightarrow> int \<Rightarrow> outcome" where
  "page_response k rs t =
     Response \<lparr>status_code = 200, retry_after = Absent,
       body = JsonObject \<lparr>results_key = Some rs, total_pages_key = Some t,
                           other_keys = [(''page'', PInt k)]\<rparr>\<rparr>"

definition five_pages :: remote where
  "five_pages tr req =
     (case map_of (params req) ''page'' of
        Some (PInt k) \<Rightarrow>
          if k = 1 then page_response 1 [[(''id'', PInt 101)]] 5
          else if k = 2 then page_response 2 [[(''id'', PInt 102)]] 5
          else if 3 \<le> k \<and> k \<le> 5 then page_response k [[(''id'', PInt (k - 2))]] 5
          else ConnectionError
      | _ \<Rightarrow> ConnectionError)"


definition tv_sheet :: sheet where
  "tv_sheet =
     \<lparr>max_row = Some 2, sheet_rows = [[PStr ''TMDB ID'', PStr ''Title''], [PInt 5, PStr ''a'']]\<rparr>"

section \<open>Properties of deduplication and merge\<close>



lemma dedupe_loop_subset:
  "set (dedupe_loop key items seen out) \<subseteq> set out \<union> {i \<in> set items. truthy (dict_get i key)}"
proof (induction items arbitrary: seen out)
  case Nil
  show ?case by simp
next
  case (Cons a items)
  show ?case
    using Cons.IH [of "insert (dict_get a key) seen" "out @ [a]"] Cons.IH [of seen out]
    by (auto simp: Let_def)
qed

lemma dedupe_truthy: "i \<in> set (dedupe items key) \<Longrightarrow> truthy (dict_get i key)"
  using dedupe_loop_subset [of key items "{}" "[]"] by (auto simp: dedupe_def)




text \<open>On normalized rows the subscript never raises, and the filter reads the id.\<close>

lemma keep_unknown_normalize:
  "keep_unknown ex_ids (map (normalize_movie cols) xs) =
     Inr (map (normalize_movie cols)
            (filter (\<lambda>i. dict_get_default i ''id'' (PStr []) \<notin> ex_ids) xs))"
  by (induction xs) (auto simp: normalize_movie_def)

lemma truthy_get_default:
  "truthy (item_id i) \<Longrightarrow> dict_get_default i ''id'' (PStr []) = item_id i"
  by (auto simp: item_id_def dict_get_def dict_get_default_def split: option.splits)

lemma dedupe_id_truthy: "i \<in> set (dedupe items ''id'') \<Longrightarrow> truthy (item_id i)"
  unfolding item_id_def by (rule dedupe_truthy)

lemma main_merge_eq:
  "main_merge cols existing ex_ids fetched =
     Inr (existing @ map (normalize_movie cols)
                       (filter (\<lambda>i. item_id i \<notin> ex_ids) (dedupe fetched ''id'')))"
proof -
  have "filter (\<lambda>i. dict_get_default i ''id'' (PStr []) \<notin> ex_ids) (dedupe fetched ''id'')
      = filter (\<lambda>i. item_id i \<notin> ex_ids) (dedupe fetched ''id'')"
    by (rule filter_cong) (auto simp: truthy_get_default dest: dedupe_id_truthy)
  then show ?thesis
    by (simp add: main_merge_def keep_unknown_normalize)
qed








text \<open>
  C10. A record whose id is absent, \<^verbatim>\<open>None\<close>, 0 or the empty string is in the output of
  \<open>dedupe\<close> for no input list; and on a first run, with no existing rows and no
  known ids, its row is not in the merged snapshot.
\<close>

theorem dedupe_drops_falsy_ids:
  assumes "map_of item key = None \<or> map_of item key = Some PNone
         \<or> map_of item key = Some (PInt 0) \<or> map_of item key = Some (PStr [])"
  shows "item \<notin> set (dedupe items key)
       \<and> (key = ''id'' \<longrightarrow> (\<exists>rows. main_merge cols [] {} items = Inr rows
                                 \<and> normalize_movie cols item \<notin> set rows))"
proof -
  have f: "\<not> truthy (dict_get item key)"
    using assms by (auto simp: dict_get_def)
  then have a: "item \<notin> set (dedupe items key)" by (auto dest: dedupe_truthy)
  have "normalize_movie cols item \<notin> normalize_movie cols ` set (dedupe items ''id'')" if k: "key = ''id''"
  proof
    assume "normalize_movie cols item \<in> normalize_movie cols ` set (dedupe items ''id'')"
    then obtain j where j: "j \<in> set (dedupe items ''id'')"
      and e: "normalize_movie cols item = normalize_movie cols j"
      by auto
    from j have t: "truthy (item_id j)" by (rule dedupe_id_truthy)
    from e have "dict_get_default item ''id'' (PStr []) = dict_get_default j ''id'' (PStr [])"
      by (simp add: normalize_movie_def)
    with t have "truthy (dict_get_default item ''id'' (PStr []))" by (simp add: truthy_get_default)
    moreover from f k have "\<not> truthy (dict_get_default item ''id'' (PStr []))"
      by (auto simp: dict_get_def dict_get_default_def split: option.splits)
    ultimately show False by contradiction
  qed
  with a show ?thesis by (auto simp: main_merge_eq)
qed

text \<open>An instance: of three fetched records, only the one with id 7 is stored.\<close>

theorem dedupe_drops_falsy_ids_witness:
  "map_of [(''id'', PInt 0), (''title'', PStr ''a'')] ''id'' = Some (PInt 0)
   \<and> [(''id'', PInt 0), (''title'', PStr ''a'')]
        \<notin> set (dedupe [[(''id'', PInt 7)], [(''id'', PInt 0), (''title'', PStr ''a'')], [(''title'', PStr ''b'')]] ''id'')
   \<and> main_merge no_cols [] {} [[(''id'', PInt 7)], [(''id'', PInt 0), (''title'', PStr ''a'')], [(''title'', PStr ''b'')]]
       = Inr [[(''TMDB ID'', PInt 7)]]"
  using dedupe_drops_falsy_ids [of "[(''id'', PInt 0), (''title'', PStr ''a'')]" "''id''"
     "[[(''id'', PInt 7)], [(''id'', PInt 0), (''title'', PStr ''a'')], [(''title'', PStr ''b'')]]" no_cols]
  by (simp add: main_merge_def dedupe_def dict_get_def normalize_movie_def no_cols_def dict_get_default_def)


section \<open>Properties of the change detector and the pipeline cycle\<close>




text \<open>
  C8 (as amended). In every cycle that reaches the change detection (the scraper
  succeeded or was skipped, the link step is not disabled by a flag, and the workbook
  exists) the row counts observed by the detection are the saved baseline at the end,
  whether growth was found or not and whatever the link generator did or returned.
\<close>

theorem counts_saved_after_detection:
  assumes "(if \<not> no_scrape a \<and> \<not> web_only a \<and> \<not> skip_lv_only a then scraper d else (True, d)) = (True, d1)"
    and "\<not> skip_lv a" and "\<not> web_only a" and "source_excel d1 \<noteq> None"
  shows "row_count_file (run_pipeline_cycle a scraper linkvertise d)
           = Some (Saved (count_excel_rows (source_excel d1)))"
  using assms
  by (auto simp: run_pipeline_cycle_def detect_new_rows_def compare_counts_def save_row_counts_def
      split: prod.splits)


text \<open>An instance: the scraper succeeds, two rows are counted, the link generator fails.\<close>

theorem counts_saved_after_detection_witness:
  "row_count_file (run_pipeline_cycle all_steps script_succeeds script_fails example_disk)
     = Some (Saved [(''Movies'', 2)])"
  using counts_saved_after_detection [of all_steps script_succeeds example_disk example_disk script_fails]
  by (simp add: all_steps_def script_succeeds_def example_disk_def count_excel_rows_def data_rows_def)

text \<open>
  When the scraper fails the cycle returns before the detection: the workbook holds
  two rows and the baseline still says one.
\<close>

theorem counts_not_saved_counterexample:
  "row_count_file (run_pipeline_cycle all_steps script_fails script_succeeds example_disk)
     = Some (Saved [(''Movies'', 1)])
   \<and> count_excel_rows (source_excel example_disk) = [(''Movies'', 2)]"
  by (simp add: run_pipeline_cycle_def all_steps_def script_fails_def example_disk_def
      count_excel_rows_def data_rows_def)

section \<open>Properties of the snapshot reader\<close>

text \<open>
  C9. \<open>load_existing_rows\<close> returns the empty state (no rows, no ids) when there is no
  file at the path, when the workbook has no sheet of the requested name, and when
  the read raises (the handler catches it; the result is a value, never an
  exception). On a workbook its result depends on the requested sheet only: two
  workbooks with the same sheet under that name give the same result, whatever
  other sheets they hold.
\<close>

theorem reader_degrades_to_empty:
  "(fs output_path = None \<longrightarrow> load_existing_rows fs output_path sheet_name id_col = ([], {}))
   \<and> (fs output_path = Some (Workbook wb) \<and> map_of wb sheet_name = None \<longrightarrow>
        load_existing_rows fs output_path sheet_name id_col = ([], {}))
   \<and> (fs output_path = Some file \<and> read_sheet file sheet_name id_col = Inl e \<longrightarrow>
        load_existing_rows fs output_path sheet_name id_col = ([], {}))
   \<and> (fs output_path = Some (Workbook wb) \<and> fs' output_path = Some (Workbook wb')
        \<and> map_of wb sheet_name = map_of wb' sheet_name \<longrightarrow>
        load_existing_rows fs output_path sheet_name id_col
          = load_existing_rows fs' output_path sheet_name id_col)"
  by (auto simp: load_existing_rows_def read_sheet_def)

text \<open>
  Instances: no file; a workbook with another sheet only; a file that is no workbook;
  a sheet without a header row; a data row shorter than the id column's index; and a
  second sheet that changes nothing.
\<close>

theorem reader_degrades_to_empty_witness:
  "load_existing_rows Map.empty ''out.xlsx'' ''Movies'' ''TMDB ID'' = ([], {})
   \<and> load_existing_rows [''out.xlsx'' \<mapsto> Workbook [(''TV'', tv_sheet)]] ''out.xlsx'' ''Movies'' ''TMDB ID'' = ([], {})
   \<and> read_sheet Corrupt ''Movies'' ''TMDB ID'' = Inl InvalidFile
   \<and> load_existing_rows [''out.xlsx'' \<mapsto> Corrupt] ''out.xlsx'' ''Movies'' ''TMDB ID'' = ([], {})
   \<and> read_sheet (Workbook [(''Movies'', \<lparr>max_row = None, sheet_rows = []\<rparr>)]) ''Movies'' ''TMDB ID'' = Inl StopIteration
   \<and> read_sheet (Workbook [(''Movies'', \<lparr>max_row = Some 2, sheet_rows = [[PStr ''Title'', PStr ''TMDB ID''], [PStr ''a'']]\<rparr>)]) ''Movies'' ''TMDB ID'' = Inl IndexError
   \<and> load_existing_rows [''out.xlsx'' \<mapsto> Workbook [(''Movies'', \<lparr>max_row = Some 2, sheet_rows = [[PStr ''Title'', PStr ''TMDB ID''], [PStr ''a'']]\<rparr>)]] ''out.xlsx'' ''Movies'' ''TMDB ID'' = ([], {})
   \<and> load_existing_rows [''out.xlsx'' \<mapsto> Workbook [(''Movies'', tv_sheet), (''TV'', tv_sheet)]] ''out.xlsx'' ''TV'' ''TMDB ID''
       = load_existing_rows [''out.xlsx'' \<mapsto> Workbook [(''TV'', tv_sheet)]] ''out.xlsx'' ''TV'' ''TMDB ID''"
  using reader_degrades_to_empty [of Map.empty "''out.xlsx''" "''Movies''" "''TMDB ID''" "[]" Corrupt InvalidFile Map.empty "[]"]
    reader_degrades_to_empty [of "[''out.xlsx'' \<mapsto> Workbook [(''TV'', tv_sheet)]]" "''out.xlsx''" "''Movies''" "''TMDB ID''" "[(''TV'', tv_sheet)]" Corrupt InvalidFile Map.empty "[]"]
    reader_degrades_to_empty [of "[''out.xlsx'' \<mapsto> Corrupt]" "''out.xlsx''" "''Movies''" "''TMDB ID''" "[]" Corrupt InvalidFile Map.empty "[]"]
    reader_degrades_to_empty [of "[''out.xlsx'' \<mapsto> Workbook [(''Movies'', \<lparr>max_row = Some 2, sheet_rows = [[PStr ''Title'', PStr ''TMDB ID''], [PStr ''a'']]\<rparr>)]]" "''out.xlsx''" "''Movies''" "''TMDB ID''" 
       "[]" "Workbook [(''Movies'', \<lparr>max_row = Some 2, sheet_rows = [[PStr ''Title'', PStr ''TMDB ID''], [PStr ''a'']]\<rparr>)]" IndexError Map.empty "[]"]
    reader_degrades_to_empty [of "[''out.xlsx'' \<mapsto> Workbook [(''Movies'', tv_sheet), (''TV'', tv_sheet)]]" "''out.xlsx''" "''TV''" "''TMDB ID''" 
       "[(''Movies'', tv_sheet), (''TV'', tv_sheet)]" Corrupt InvalidFile "[''out.xlsx'' \<mapsto> Workbook [(''TV'', tv_sheet)]]" "[(''TV'', tv_sheet)]"]
  by (simp add: read_sheet_def)

subsection \<open>The known ids cover the loaded rows\<close>

text \<open>Lookups in a row dictionary, in terms of the header and the cells.\<close>

lemma map_of_fold_update:
  "map_of (fold (\<lambda>(k, v). AList.update k v) xs d) = map_of d ++ map_of (rev xs)"
proof (induction xs arbitrary: d)
  case Nil
  show ?case by simp
next
  case (Cons p xs)
  obtain k v where p: "p = (k, v)" by (cases p)
  show ?case
    by (simp add: p Cons.IH update_conv' map_add_upd_left fun_eq_iff map_add_def split: option.splits)
qed

lemma map_of_rev_distinct: "distinct (map fst xs) \<Longrightarrow> map_of (rev xs) = map_of xs"
  by (simp add: map_of_inject_set distinct_rev rev_map [symmetric])

lemma map_of_zip_index:
  "list_index headers k = Some i \<Longrightarrow> i < length cells \<Longrightarrow> map_of (zip headers cells) k = Some (cells ! i)"
proof (induction headers arbitrary: i cells)
  case Nil
  then show ?case by simp
next
  case (Cons h hs)
  then show ?case
    by (cases cells) (auto split: if_splits simp: nth_Cons')
qed

lemma map_of_zip_no_index:
  "list_index headers k = None \<Longrightarrow> map_of (zip headers cells) k = None"
proof (induction headers arbitrary: cells)
  case Nil
  then show ?case by simp
next
  case (Cons h hs)
  then show ?case by (cases cells) (auto split: if_splits)
qed

lemma map_of_map_values:
  "map_of (map (\<lambda>(k, v). (k, f v)) xs) k = map_option f (map_of xs k)"
  by (induction xs) auto

lemma map_of_row_dict:
  assumes "distinct headers"
  shows "map_of (row_dict headers cells) k =
           map_option (\<lambda>v. if v \<noteq> PNone then v else PStr []) (map_of (zip headers cells) k)"
proof -
  have d: "distinct (map fst (zip headers cells))"
    using assms by (simp add: map_fst_zip_take)
  have "map_of (dict_update [] (zip headers cells)) = map_of (zip headers cells)"
    by (simp add: dict_update_def map_of_fold_update map_of_rev_distinct [OF d])
  then show ?thesis
    by (simp add: row_dict_def map_of_map_values)
qed

lemma rows_loop_ids_cover:
  assumes "distinct headers" and "list_index headers id_col = id_idx"
    and "rows_loop headers id_idx rs data ids = Inr (data', ids')"
    and "\<forall>r\<in>set data. \<forall>v. map_of r id_col = Some v \<longrightarrow> v \<noteq> PStr [] \<longrightarrow> v \<in> ids"
  shows "\<forall>r\<in>set data'. \<forall>v. map_of r id_col = Some v \<longrightarrow> v \<noteq> PStr [] \<longrightarrow> v \<in> ids'"
  using assms(3,4)
proof (induction rs arbitrary: data ids)
  case Nil
  then show ?case by simp
next
  case (Cons cells rest)
  show ?case
  proof (cases id_idx)
    case None
    then have n: "map_of (row_dict headers cells) id_col = None"
      using assms(1,2) by (simp add: map_of_row_dict map_of_zip_no_index)
    from Cons.prems(1) None
    have "rows_loop headers id_idx rest (data @ [row_dict headers cells]) ids = Inr (data', ids')"
      by (simp add: Let_def)
    then show ?thesis
      by (rule Cons.IH) (use Cons.prems(2) n in auto)
  next
    case (Some i)
    show ?thesis
    proof (cases "i < length cells")
      case False
      with Cons.prems(1) Some show ?thesis by (simp add: Let_def)
    next
      case True
      then have m: "map_of (row_dict headers cells) id_col
          = Some (if cells ! i \<noteq> PNone then cells ! i else PStr [])"
        using assms(1,2) Some by (simp add: map_of_row_dict map_of_zip_index)
      show ?thesis
      proof (cases "cells ! i \<noteq> PNone")
        case True
        with Cons.prems(1) Some \<open>i < length cells\<close>
        have "rows_loop headers id_idx rest (data @ [row_dict headers cells]) (insert (cells ! i) ids)
                = Inr (data', ids')"
          by (simp add: Let_def)
        then show ?thesis
          by (rule Cons.IH) (use Cons.prems(2) m True in auto)
      next
        case False
        with Cons.prems(1) Some \<open>i < length cells\<close>
        have "rows_loop headers id_idx rest (data @ [row_dict headers cells]) ids = Inr (data', ids')"
          by (simp add: Let_def)
        then show ?thesis
          by (rule Cons.IH) (use Cons.prems(2) m False in auto)
      qed
    qed
  qed
qed

text \<open>
  With a header row of distinct names, the known ids that the reader returns hold the
  truthy id of every row it returns. This is what the merge relies on when it tests
  fetched ids against the known ids only.
\<close>

lemma reader_ids_cover_rows:
  assumes "fs output_path = Some (Workbook wb)" and "map_of wb sheet_name = Some ws"
    and "sheet_rows ws = first # rest"
    and "distinct (map (\<lambda>h. if h \<noteq> PNone then py_str h else []) first)"
    and "load_existing_rows fs output_path sheet_name id_col = (existing, ex_ids)"
  shows "\<forall>r\<in>set existing. \<forall>v. map_of r id_col = Some v \<longrightarrow> truthy v \<longrightarrow> v \<in> ex_ids"
proof -
  let ?headers = "map (\<lambda>h. if h \<noteq> PNone then py_str h else []) first"
  have r: "read_sheet (Workbook wb) sheet_name id_col
      = rows_loop ?headers (list_index ?headers id_col) rest [] {}"
    using assms(2,3) by (simp add: read_sheet_def Let_def)
  show ?thesis
  proof (cases "rows_loop ?headers (list_index ?headers id_col) rest [] {}")
    case (Inl e)
    with assms(1,5) r show ?thesis by (auto simp: load_existing_rows_def)
  next
    case (Inr loaded)
    with assms(1,5) r have "rows_loop ?headers (list_index ?headers id_col) rest [] {} = Inr (existing, ex_ids)"
      by (auto simp: load_existing_rows_def)
    with assms(4) have "\<forall>r\<in>set existing. \<forall>v. map_of r id_col = Some v \<longrightarrow> v \<noteq> PStr [] \<longrightarrow> v \<in> ex_ids"
      by (rule rows_loop_ids_cover [OF _ refl]) simp
    then show ?thesis by fastforce
  qed
qed

section \<open>Properties of the fetch client\<close>


lemma attempt_raises:
  assumes "raises_request_exception (remote tr req)"
  shows "get_attempts remote req (attempt # rest) tr =
           (if attempt = 2 then (Inr None, tr @ [Requested req])
            else get_attempts remote req rest (tr @ [Requested req, Slept (2 ^ attempt)]))"
proof (cases "remote tr req")
  case ConnectionError
  then show ?thesis by (simp add: Let_def)
next
  case (Response resp)
  with assms show ?thesis by (auto simp: Let_def split: body.splits)
qed

lemma attempt_returns:
  assumes "remote tr req = Response resp" and "status_code resp \<noteq> 429"
    and "\<not> (400 \<le> status_code resp \<and> status_code resp < 600)" and "body resp = JsonObject data"
  shows "get_attempts remote req (attempt # rest) tr = (Inr (Some data), tr @ [Requested req])"
  using assms by (auto simp: get_attempts.simps Let_def)

declare get_attempts.simps(2) [simp del]

lemma get_page_response:
  assumes "remote tr (build_request c endpoint extra_params) = page_response k rs t"
  shows "get remote c endpoint extra_params tr =
           (Inr (Some \<lparr>results_key = Some rs, total_pages_key = Some t, other_keys = [(''page'', PInt k)]\<rparr>),
            tr @ [Requested (build_request c endpoint extra_params)])"
proof -
  let ?resp = "\<lparr>status_code = 200, retry_after = Absent,
       body = JsonObject \<lparr>results_key = Some rs, total_pages_key = Some t,
                           other_keys = [(''page'', PInt k)]\<rparr>\<rparr>"
  have "remote tr (build_request c endpoint extra_params) = Response ?resp"
    using assms by (simp add: page_response_def)
  then have "get_attempts remote (build_request c endpoint extra_params) (0 # [1, 2]) tr
      = (Inr (Some \<lparr>results_key = Some rs, total_pages_key = Some t, other_keys = [(''page'', PInt k)]\<rparr>),
         tr @ [Requested (build_request c endpoint extra_params)])"
    by (rule attempt_returns) simp_all
  then show ?thesis by (simp add: get_def)
qed




text \<open>
  C3 (as amended). When each of the three attempts of a request ends in a
  \<^verbatim>\<open>RequestException\<close> (a network error, a 4xx or 5xx status other than 429, or a
  body that is no JSON), \<open>get\<close> sends the request three times, sleeps 1 second after
  the first failure and 2 seconds after the second, does not sleep after the third,
  and returns the failure sentinel \<^verbatim>\<open>None\<close>, not an exception.
\<close>

theorem failures_end_in_sentinel:
  assumes "raises_request_exception (remote tr (build_request c endpoint extra_params))"
    and "raises_request_exception
           (remote (tr @ [Requested (build_request c endpoint extra_params), Slept 1])
              (build_request c endpoint extra_params))"
    and "raises_request_exception
           (remote (tr @ [Requested (build_request c endpoint extra_params), Slept 1,
                          Requested (build_request c endpoint extra_params), Slept 2])
              (build_request c endpoint extra_params))"
  shows "get remote c endpoint extra_params tr =
           (Inr None, tr @ [Requested (build_request c endpoint extra_params), Slept 1,
                           Requested (build_request c endpoint extra_params), Slept 2,
                           Requested (build_request c endpoint extra_params)])"
proof -
  let ?req = "build_request c endpoint extra_params"
  have "get remote c endpoint extra_params tr = get_attempts remote ?req [0, 1, 2] tr"
    by (simp add: get_def)
  also have "\<dots> = get_attempts remote ?req [1, 2] (tr @ [Requested ?req, Slept 1])"
    using assms(1) by (simp add: attempt_raises)
  also have "\<dots> = get_attempts remote ?req [2] (tr @ [Requested ?req, Slept 1, Requested ?req, Slept 2])"
    using assms(2) by (simp add: attempt_raises)
  also have "\<dots> = (Inr None, tr @ [Requested ?req, Slept 1, Requested ?req, Slept 2, Requested ?req])"
    using assms(3) by (simp add: attempt_raises)
  finally show ?thesis .
qed

text \<open>An instance: a source that cannot be reached.\<close>

theorem failures_end_in_sentinel_witness:
  "raises_request_exception ConnectionError
   \<and> get unreachable bearer_client ''/movie/popular'' [(''page'', PInt 1)] [] =
     (Inr None, [Requested (build_request bearer_client ''/movie/popular'' [(''page'', PInt 1)]), Slept 1,
                 Requested (build_request bearer_client ''/movie/popular'' [(''page'', PInt 1)]), Slept 2,
                 Requested (build_request bearer_client ''/movie/popular'' [(''page'', PInt 1)])])"
  using failures_end_in_sentinel [of unreachable "[]" bearer_client "''/movie/popular''" "[(''page'', PInt 1)]"]
  by (simp add: unreachable_def)

text \<open>
  A source that always answers 500 sees sleeps of 1 and 2 seconds and no sleep of 4;
  and a 304 answer with a JSON body, a status outside 2xx, is returned as data at once.
\<close>

theorem backoff_counterexample:
  "get always_500 bearer_client ''/movie/popular'' [(''page'', PInt 1)] [] =
     (Inr None, [Requested (build_request bearer_client ''/movie/popular'' [(''page'', PInt 1)]), Slept 1,
                 Requested (build_request bearer_client ''/movie/popular'' [(''page'', PInt 1)]), Slept 2,
                 Requested (build_request bearer_client ''/movie/popular'' [(''page'', PInt 1)])])
   \<and> get not_modified bearer_client ''/movie/popular'' [(''page'', PInt 1)] [] =
     (Inr (Some \<lparr>results_key = Some [], total_pages_key = Some 1, other_keys = []\<rparr>),
      [Requested (build_request bearer_client ''/movie/popular'' [(''page'', PInt 1)])])"
  by (simp add: get_def get_attempts.simps always_500_def not_modified_def Let_def)

section \<open>Properties of the incremental page walker\<close>

declare fetch_incremental_loop.simps [simp del]

lemma not_over_budget_mono: "\<not> over_budget max_pages p \<Longrightarrow> q \<le> p \<Longrightarrow> \<not> over_budget max_pages q"
  by (cases max_pages) auto

text \<open>
  C1. In the loop of \<open>fetch_incremental\<close>: when a page after page 1 is fetched and
  none of its records has an id outside the known ids, the walk ends there, with the
  records accumulated so far and no further request. When page 1 has no such record,
  the walk does not end: it sleeps and goes on with page 2 and the page count that
  page 1 reported. And for a source whose pages 1 and 2 hold only new records (page 2
  at least one), whose page 3 holds only known ones, and which reports 5 pages, the
  walker requests exactly pages 1, 2 and 3 and returns exactly the records of pages
  1 and 2.
\<close>

theorem early_stop_after_first_page:
  "(1 < page \<and> page \<le> total_pages \<and> \<not> over_budget max_pages page
      \<and> get remote c endpoint (AList.update ''page'' (PInt page) ps) tr = (Inr (Some data), tr1)
      \<and> \<not> empty_object data
      \<and> filter (\<lambda>r. item_id r \<notin> existing_ids)
            (case results_key data of None \<Rightarrow> [] | Some rs \<Rightarrow> rs) = []
      \<longrightarrow> fetch_incremental_loop remote c endpoint ps existing_ids max_pages page total_pages results tr
            = (Inr results, tr1))
   \<and> (1 \<le> total_pages \<and> \<not> over_budget max_pages 1
      \<and> get remote c endpoint (AList.update ''page'' (PInt 1) ps) tr = (Inr (Some data), tr1)
      \<and> \<not> empty_object data
      \<and> filter (\<lambda>r. item_id r \<notin> existing_ids)
            (case results_key data of None \<Rightarrow> [] | Some rs \<Rightarrow> rs) = []
      \<longrightarrow> fetch_incremental_loop remote c endpoint ps existing_ids max_pages 1 total_pages results tr
            = fetch_incremental_loop remote c endpoint ps existing_ids max_pages 2
                (min (case total_pages_key data of None \<Rightarrow> 1 | Some t \<Rightarrow> t) 500) results
                (tr1 @ [Slept REQUEST_DELAY]))
   \<and> ((\<forall>tr'. remote tr' (build_request c endpoint (AList.update ''page'' (PInt 1) ps)) = page_response 1 p1 5)
      \<and> (\<forall>tr'. remote tr' (build_request c endpoint (AList.update ''page'' (PInt 2) ps)) = page_response 2 p2 5)
      \<and> (\<forall>tr'. remote tr' (build_request c endpoint (AList.update ''page'' (PInt 3) ps)) = page_response 3 p3 5)
      \<and> (\<forall>r\<in>set p1. item_id r \<notin> existing_ids)
      \<and> (\<forall>r\<in>set p2. item_id r \<notin> existing_ids) \<and> p2 \<noteq> []
      \<and> (\<forall>r\<in>set p3. item_id r \<in> existing_ids)
      \<and> \<not> over_budget max_pages 3
      \<longrightarrow> fetch_incremental remote c endpoint ps existing_ids max_pages tr
            = (Inr (p1 @ p2),
               tr @ [Requested (build_request c endpoint (AList.update ''page'' (PInt 1) ps)),
                     Slept REQUEST_DELAY,
                     Requested (build_request c endpoint (AList.update ''page'' (PInt 2) ps)),
                     Slept REQUEST_DELAY,
                     Requested (build_request c endpoint (AList.update ''page'' (PInt 3) ps))]))"
proof (intro conjI impI)
  assume "1 < page \<and> page \<le> total_pages \<and> \<not> over_budget max_pages page
      \<and> get remote c endpoint (AList.update ''page'' (PInt page) ps) tr = (Inr (Some data), tr1)
      \<and> \<not> empty_object data
      \<and> filter (\<lambda>r. item_id r \<notin> existing_ids)
            (case results_key data of None \<Rightarrow> [] | Some rs \<Rightarrow> rs) = []"
  then show "fetch_incremental_loop remote c endpoint ps existing_ids max_pages page total_pages results tr
            = (Inr results, tr1)"
    by (subst fetch_incremental_loop.simps) (simp add: Let_def)
next
  assume "1 \<le> total_pages \<and> \<not> over_budget max_pages 1
      \<and> get remote c endpoint (AList.update ''page'' (PInt 1) ps) tr = (Inr (Some data), tr1)
      \<and> \<not> empty_object data
      \<and> filter (\<lambda>r. item_id r \<notin> existing_ids)
            (case results_key data of None \<Rightarrow> [] | Some rs \<Rightarrow> rs) = []"
  then show "fetch_incremental_loop remote c endpoint ps existing_ids max_pages 1 total_pages results tr
            = fetch_incremental_loop remote c endpoint ps existing_ids max_pages 2
                (min (case total_pages_key data of None \<Rightarrow> 1 | Some t \<Rightarrow> t) 500) results
                (tr1 @ [Slept REQUEST_DELAY])"
    by (subst fetch_incremental_loop.simps) (simp add: Let_def)
next
  let ?q = "\<lambda>k. build_request c endpoint (AList.update ''page'' (PInt k) ps)"
  assume a: "(\<forall>tr'. remote tr' (?q 1) = page_response 1 p1 5)
      \<and> (\<forall>tr'. remote tr' (?q 2) = page_response 2 p2 5)
      \<and> (\<forall>tr'. remote tr' (?q 3) = page_response 3 p3 5)
      \<and> (\<forall>r\<in>set p1. item_id r \<notin> existing_ids)
      \<and> (\<forall>r\<in>set p2. item_id r \<notin> existing_ids) \<and> p2 \<noteq> []
      \<and> (\<forall>r\<in>set p3. item_id r \<in> existing_ids)
      \<and> \<not> over_budget max_pages 3"
  then have b: "\<not> over_budget max_pages 1" "\<not> over_budget max_pages 2" "\<not> over_budget max_pages 3"
    using not_over_budget_mono [of max_pages 3 1] not_over_budget_mono [of max_pages 3 2] by simp_all
  from a have g: "get remote c endpoint (AList.update ''page'' (PInt 1) ps) t =
      (Inr (Some \<lparr>results_key = Some p1, total_pages_key = Some 5, other_keys = [(''page'', PInt 1)]\<rparr>), t @ [Requested (?q 1)])"
     "get remote c endpoint (AList.update ''page'' (PInt 2) ps) t =
      (Inr (Some \<lparr>results_key = Some p2, total_pages_key = Some 5, other_keys = [(''page'', PInt 2)]\<rparr>), t @ [Requested (?q 2)])"
     "get remote c endpoint (AList.update ''page'' (PInt 3) ps) t =
      (Inr (Some \<lparr>results_key = Some p3, total_pages_key = Some 5, other_keys = [(''page'', PInt 3)]\<rparr>), t @ [Requested (?q 3)])"
    for t
    by (simp_all add: get_page_response)
  from a have f1: "filter (\<lambda>r. item_id r \<notin> existing_ids) p1 = p1"
    and f2: "filter (\<lambda>r. item_id r \<notin> existing_ids) p2 = p2"
    and f3: "filter (\<lambda>r. item_id r \<notin> existing_ids) p3 = []"
    by (simp_all add: filter_id_conv filter_empty_conv)
  from a have ne: "p2 \<noteq> []" by simp
  have "fetch_incremental remote c endpoint ps existing_ids max_pages tr
      = fetch_incremental_loop remote c endpoint ps existing_ids max_pages 2 5 p1
          (tr @ [Requested (?q 1), Slept REQUEST_DELAY])"
    unfolding fetch_incremental_def
    by (subst fetch_incremental_loop.simps) (simp add: b g f1 Let_def empty_object_def)
  also have "\<dots> = fetch_incremental_loop remote c endpoint ps existing_ids max_pages 3 5 (p1 @ p2)
          (tr @ [Requested (?q 1), Slept REQUEST_DELAY, Requested (?q 2), Slept REQUEST_DELAY])"
    by (subst fetch_incremental_loop.simps) (simp add: b g f2 ne Let_def empty_object_def)
  also have "\<dots> = (Inr (p1 @ p2),
          tr @ [Requested (?q 1), Slept REQUEST_DELAY, Requested (?q 2), Slept REQUEST_DELAY, Requested (?q 3)])"
    by (subst fetch_incremental_loop.simps) (simp add: b g f3 Let_def empty_object_def)
  finally show "fetch_incremental remote c endpoint ps existing_ids max_pages tr
            = (Inr (p1 @ p2),
               tr @ [Requested (?q 1), Slept REQUEST_DELAY, Requested (?q 2), Slept REQUEST_DELAY, Requested (?q 3)])" .
qed


text \<open>The definitions that evaluate a walk on the source of five pages.\<close>

lemmas eval_five_pages =
  get_def get_attempts.simps build_request_def dict_update_def bearer_client_def five_pages_def
  page_response_def Let_def empty_object_def item_id_def dict_get_def

text \<open>
  Instances, on the source of five pages: the stop at page 3; page 1 already known,
  and the walk going on; and the whole walk of three requests.
\<close>

theorem early_stop_after_first_page_witness:
  "fetch_incremental_loop five_pages bearer_client ''/movie/popular'' [] {PInt 1, PInt 2, PInt 3} None
      3 5 [[(''id'', PInt 101)], [(''id'', PInt 102)]] []
     = (Inr [[(''id'', PInt 101)], [(''id'', PInt 102)]],
        [Requested (build_request bearer_client ''/movie/popular'' [(''page'', PInt 3)])])
   \<and> fetch_incremental_loop five_pages bearer_client ''/movie/popular'' [] {PInt 101, PInt 1, PInt 2, PInt 3} None
      1 1 [] []
     = fetch_incremental_loop five_pages bearer_client ''/movie/popular'' [] {PInt 101, PInt 1, PInt 2, PInt 3} None
         2 5 []
         [Requested (build_request bearer_client ''/movie/popular'' [(''page'', PInt 1)]), Slept REQUEST_DELAY]
   \<and> fetch_incremental five_pages bearer_client ''/movie/popular'' [] {PInt 1, PInt 2, PInt 3} None []
     = (Inr [[(''id'', PInt 101)], [(''id'', PInt 102)]],
        [Requested (build_request bearer_client ''/movie/popular'' [(''page'', PInt 1)]), Slept REQUEST_DELAY,
         Requested (build_request bearer_client ''/movie/popular'' [(''page'', PInt 2)]), Slept REQUEST_DELAY,
         Requested (build_request bearer_client ''/movie/popular'' [(''page'', PInt 3)])])"
  using early_stop_after_first_page [where remote = five_pages and c = bearer_client
      and endpoint = "''/movie/popular''" and ps = "[]" and existing_ids = "{PInt 1, PInt 2, PInt 3}"
      and max_pages = None and page = 3 and total_pages = 5
      and results = "[[(''id'', PInt 101)], [(''id'', PInt 102)]]" and tr = "[]"
      and data = "\<lparr>results_key = Some [[(''id'', PInt 1)]], total_pages_key = Some 5, other_keys = [(''page'', PInt 3)]\<rparr>"
      and ?tr1.0 = "[Requested (build_request bearer_client ''/movie/popular'' [(''page'', PInt 3)])]"
      and ?p1.0 = "[[(''id'', PInt 101)]]" and ?p2.0 = "[[(''id'', PInt 102)]]" and ?p3.0 = "[[(''id'', PInt 1)]]"]
    early_stop_after_first_page [where remote = five_pages and c = bearer_client
      and endpoint = "''/movie/popular''" and ps = "[]" and existing_ids = "{PInt 101, PInt 1, PInt 2, PInt 3}"
      and max_pages = None and page = 3 and total_pages = 1
      and results = "[]" and tr = "[]"
      and data = "\<lparr>results_key = Some [[(''id'', PInt 101)]], total_pages_key = Some 5, other_keys = [(''page'', PInt 1)]\<rparr>"
      and ?tr1.0 = "[Requested (build_request bearer_client ''/movie/popular'' [(''page'', PInt 1)])]"
      and ?p1.0 = "[[(''id'', PInt 101)]]" and ?p2.0 = "[[(''id'', PInt 102)]]" and ?p3.0 = "[[(''id'', PInt 1)]]"]
  by (simp add: eval_five_pages)

section \<open>Properties of a run that finds nothing new\<close>

















end
